theory Spec2Isabelle
  imports Main
begin

section \<open>Data model\<close>

text \<open>
  A Python \<open>str\<close> is a sequence of Unicode code points, so it is modelled as a list of
  code points; \<open>lit\<close> turns an ASCII literal of the source into such a list. The
  bytes of the uploaded PDF are a list of 8-bit characters.
\<close>

type_synonym pystr = "nat list"

type_synonym bytes = "char list"

definition lit :: "string \<Rightarrow> pystr" where
  "lit s = map of_char s"

text \<open>
  \<open>str.isspace\<close> on one code point: the code points CPython classifies as whitespace
  (U+0009..U+000D, U+001C..U+001F, U+0020, U+0085, U+00A0, U+1680, U+2000..U+200A,
  U+2028, U+2029, U+202F, U+205F, U+3000). \<open>str.strip()\<close> with no argument removes
  them from both ends.
\<close>

definition isspace :: "nat \<Rightarrow> bool" where
  "isspace c =
     ((9 \<le> c \<and> c \<le> 13) \<or> (28 \<le> c \<and> c \<le> 31) \<or> c = 32 \<or> c = 133 \<or> c = 160
      \<or> c = 5760 \<or> (8192 \<le> c \<and> c \<le> 8202) \<or> c = 8232 \<or> c = 8233 \<or> c = 8239
      \<or> c = 8287 \<or> c = 12288)"

definition strip :: "pystr \<Rightarrow> pystr" where
  "strip s = rev (dropWhile isspace (rev (dropWhile isspace s)))"

text \<open>
  Exceptions as values. \<open>HTTPError\<close> stands for \<open>requests.exceptions.HTTPError\<close> (and
  its subclasses), \<open>OtherException\<close> for every other subclass of \<open>Exception\<close>;
  \<open>AttributeError\<close> is what Streamlit raises for a missing key of
  \<open>st.session_state\<close>, \<open>FileNotFoundError\<close> what \<open>os.unlink\<close> raises for a missing
  path.
\<close>

datatype exn =
    HTTPError pystr
  | AttributeError pystr
  | FileNotFoundError pystr
  | OtherException pystr

text \<open>
  What the program does to the outside world, in order: the trace. The logging calls
  and the spinners of the source change neither control flow nor state and are left out.
\<close>

record search_request =
  query :: pystr
  search_depth :: pystr
  include_images :: bool
  include_answer :: bool
  max_results :: int

datatype event =
    Sleep int
  | TmpWrite pystr bytes
  | UploadFile pystr bytes
  | Unlink pystr
  | GetFile pystr
  | SendMessage pystr
  | GenerateContent pystr
  | TavilySearch search_request
  | StError pystr
  | StSuccess pystr
  | StInfo pystr
  | StWrite pystr
  | StChatMessage pystr pystr

record world =
  fs :: "pystr \<rightharpoonup> bytes"
  trace :: "event list"

definition emit :: "event list \<Rightarrow> world \<Rightarrow> world" where
  "emit es w = w\<lparr>trace := trace w @ es\<rparr>"

text \<open>The payload of the search service: ranked results and an optional answer.\<close>

record search_hit =
  title :: "pystr option"
  url :: "pystr option"

record payload =
  results :: "search_hit list"
  answer :: "pystr option"

section \<open>The search client: \<open>tavily_search\<close>\<close>

text \<open>
  The request of line 60: the query with the fixed options of the source.
\<close>

definition tavily_request :: "pystr \<Rightarrow> search_request" where
  "tavily_request q =
     \<lparr>query = q, search_depth = lit ''advanced'', include_images = False,
      include_answer = True, max_results = 5\<rparr>"

text \<open>
  The \<open>for attempt in range(max_retries)\<close> loop of lines 57-70, as recursion over the
  attempts still to run. \<open>client k r\<close> is what the \<open>k\<close>-th call (from 0) of
  \<open>tavily_client.search\<close> does on request \<open>r\<close>: it returns a payload or raises. The
  result is the returned value (\<open>None\<close> is Python's \<open>None\<close>) and the world after.
\<close>

fun tavily_attempts ::
  "(nat \<Rightarrow> search_request \<Rightarrow> exn + payload) \<Rightarrow> pystr \<Rightarrow> int \<Rightarrow> int list \<Rightarrow> world
     \<Rightarrow> payload option \<times> world" where
  "tavily_attempts client q max_retries [] w = (None, w)"
| "tavily_attempts client q max_retries (attempt # rest) w =
     (let w1 = emit [TavilySearch (tavily_request q)] w in
      case client (nat attempt) (tavily_request q) of
        Inr response \<Rightarrow> (Some response, w1)
      | Inl (HTTPError m) \<Rightarrow>
          if attempt = max_retries - 1 then (None, w1)
          else tavily_attempts client q max_retries rest (emit [Sleep (2 ^ nat attempt)] w1)
      | Inl _ \<Rightarrow> (None, w1))"

definition tavily_search ::
  "(nat \<Rightarrow> search_request \<Rightarrow> exn + payload) \<Rightarrow> pystr \<Rightarrow> int \<Rightarrow> world
     \<Rightarrow> payload option \<times> world" where
  "tavily_search client q max_retries w =
     (if strip q = [] then (None, w)
      else tavily_attempts client q max_retries [0..max_retries - 1] w)"

section \<open>The document service\<close>

text \<open>
  The handle \<open>genai.upload_file\<close> returns (only its \<open>name\<close> is read), a generation
  response (reading \<open>response.text\<close> may itself raise), and the chat session
  \<open>model.start_chat\<close> builds from its seed history. The script never reassigns the
  session object; what the remote conversation accumulates shows only in the replies,
  which the environment decides.
\<close>

datatype gfile = GFile (file_name: pystr)

datatype response = Response (response_text: "exn + pystr")

datatype part = FilePart gfile | TextPart pystr

datatype chat_session = ChatSession (history: "(pystr \<times> part list) list")

text \<open>
  The environment of one run of the script: the name \<open>tempfile\<close> picks, and what each
  remote call does. \<open>genai_get_file n k\<close> is the state name the \<open>k\<close>-th status query
  (from 0) for the file named \<open>n\<close> reports.
\<close>

record env =
  tmp_name :: pystr
  genai_upload_file :: "pystr \<Rightarrow> bytes \<Rightarrow> exn + gfile"
  genai_get_file :: "pystr \<Rightarrow> nat \<Rightarrow> exn + pystr"
  send_message :: "chat_session \<Rightarrow> pystr \<Rightarrow> exn + response"
  generate_content :: "pystr \<Rightarrow> exn + response"
  tavily_client :: "nat \<Rightarrow> search_request \<Rightarrow> exn + payload"

subsection \<open>\<open>upload_to_gemini\<close> (lines 22-31)\<close>

definition os_unlink :: "pystr \<Rightarrow> world \<Rightarrow> (exn + unit) \<times> world" where
  "os_unlink p w =
     (case fs w p of
        None \<Rightarrow> (Inl (FileNotFoundError p), w)
      | Some _ \<Rightarrow> (Inr (), emit [Unlink p] (w\<lparr>fs := (fs w)(p := None)\<rparr>)))"

text \<open>
  The \<open>with\<close> block writes the bytes to the temporary file (\<open>delete=False\<close>: closing
  keeps it); the \<open>try\<close> sends the file, and the \<open>finally\<close> unlinks it whether the
  upload returned or raised. An exception of the \<open>finally\<close> clause would replace the
  outcome of the \<open>try\<close>.
\<close>

definition upload_to_gemini :: "env \<Rightarrow> bytes \<Rightarrow> world \<Rightarrow> (exn + gfile) \<times> world" where
  "upload_to_gemini e uploaded w =
     (let tmp_file_path = tmp_name e;
          w1 = emit [TmpWrite tmp_file_path uploaded]
                 (w\<lparr>fs := (fs w)(tmp_file_path \<mapsto> uploaded)\<rparr>);
          (r, w2) =
            (case fs w1 tmp_file_path of
               None \<Rightarrow> (Inl (FileNotFoundError tmp_file_path), w1)
             | Some sent \<Rightarrow>
                 (genai_upload_file e tmp_file_path sent,
                  emit [UploadFile tmp_file_path sent] w1));
          (u, w3) = os_unlink tmp_file_path w2
      in case u of Inl x \<Rightarrow> (Inl x, w3) | Inr _ \<Rightarrow> (r, w3))"

subsection \<open>\<open>wait_for_file_active\<close> (lines 33-42)\<close>

text \<open>
  The \<open>while\<close> loop of lines 36-38 has no bound, so it is a partial function: \<open>None\<close>
  is the run that never leaves the loop. \<open>st\<close> is the state name last read, \<open>k\<close> the
  number of status queries made so far.
\<close>

partial_function (option) poll_while ::
  "(nat \<Rightarrow> exn + pystr) \<Rightarrow> pystr \<Rightarrow> nat \<Rightarrow> pystr \<Rightarrow> world \<Rightarrow> ((exn + pystr) \<times> world) option"
where
  "poll_while get_file nm k st w =
     (if st = lit ''PROCESSING'' then
        (case get_file k of
           Inl x \<Rightarrow> Some (Inl x, emit [Sleep 2, GetFile nm] w)
         | Inr st' \<Rightarrow> poll_while get_file nm (Suc k) st' (emit [Sleep 2, GetFile nm] w))
      else Some (Inr st, w))"

definition wait_for_file_active :: "env \<Rightarrow> gfile \<Rightarrow> world \<Rightarrow> ((exn + bool) \<times> world) option" where
  "wait_for_file_active e file w =
     (let nm = file_name file; w1 = emit [GetFile nm] w in
      case genai_get_file e nm 0 of
        Inl x \<Rightarrow> Some (Inl x, w1)
      | Inr st \<Rightarrow>
          (case poll_while (genai_get_file e nm) nm 1 st w1 of
             None \<Rightarrow> None
           | Some (Inl x, w2) \<Rightarrow> Some (Inl x, w2)
           | Some (Inr st', w2) \<Rightarrow>
               if st' \<noteq> lit ''ACTIVE''
               then Some (Inr False,
                          emit [StError (lit ''File '' @ nm @ lit '' failed to process'')] w2)
               else Some (Inr True, w2)))"

subsection \<open>\<open>generate_title_from_summary\<close> (lines 44-51)\<close>

definition title_prompt :: "pystr \<Rightarrow> pystr" where
  "title_prompt summary =
     lit ''Given the following summary of a document, generate a concise and descriptive title (maximum 5 words):''
     @ [10, 10] @ summary @ [10, 10] @ lit ''Title:''"

definition generate_title_from_summary ::
  "(pystr \<Rightarrow> exn + response) \<Rightarrow> pystr \<Rightarrow> world \<Rightarrow> pystr \<times> world" where
  "generate_title_from_summary model summary w =
     (let prompt = title_prompt summary; w1 = emit [GenerateContent prompt] w in
      case model prompt of
        Inl x \<Rightarrow> (lit ''Untitled Document'', w1)
      | Inr resp \<Rightarrow>
          (case response_text resp of
             Inl x \<Rightarrow> (lit ''Untitled Document'', w1)
           | Inr t \<Rightarrow> (strip t, w1)))"

section \<open>The session orchestrator: the \<open>with col1\<close> block (lines 158-216)\<close>

text \<open>
  \<open>st.session_state\<close>: each key is absent (\<open>None\<close>) or holds a value. The key
  \<open>search_results\<close> may hold Python's \<open>None\<close>, hence the two options. One run of the
  script reads the file uploader and the chat input.
\<close>

datatype message = Message (role: pystr) (content: pystr)

record session_state =
  chat_history :: "message list option"
  gemini_file :: "gfile option"
  chat_session :: "chat_session option"
  pdf_summary :: "pystr option"
  pdf_title :: "pystr option"
  search_results :: "payload option option"

record run_input =
  uploaded_file :: "bytes option"
  user_question :: "pystr option"

definition start_chat :: "gfile \<Rightarrow> chat_session" where
  "start_chat file =
     ChatSession
       [(lit ''user'',
         [FilePart file,
          TextPart (lit ''What is the main topic or subject of this PDF? Provide a brief summary in 2-3 sentences.'')])]"

text \<open>\<open>st.session_state.chat_history.append(m)\<close>: reading a missing key raises.\<close>

definition append_history :: "message \<Rightarrow> session_state \<Rightarrow> exn + session_state" where
  "append_history m s =
     (case chat_history s of
        None \<Rightarrow> Inl (AttributeError (lit ''chat_history''))
      | Some h \<Rightarrow> Inr (s\<lparr>chat_history := Some (h @ [m])\<rparr>))"

text \<open>
  Lines 167-188, entered when \<open>gemini_file\<close> is not a key of the session state: upload,
  wait, open the chat, ask for the summary, then title and search. An exception leaves
  the block with the keys assigned so far.
\<close>

definition process_upload ::
  "env \<Rightarrow> bytes \<Rightarrow> session_state \<Rightarrow> world \<Rightarrow> ((exn + unit) \<times> session_state \<times> world) option" where
  "process_upload e uploaded s w =
     (case upload_to_gemini e uploaded w of
        (Inl x, w1) \<Rightarrow> Some (Inl x, s, w1)
      | (Inr file, w1) \<Rightarrow>
          (let s1 = s\<lparr>gemini_file := Some file\<rparr> in
           case wait_for_file_active e file w1 of
             None \<Rightarrow> None
           | Some (Inl x, w2) \<Rightarrow> Some (Inl x, s1, w2)
           | Some (Inr False, w2) \<Rightarrow> Some (Inr (), s1, w2)
           | Some (Inr True, w2) \<Rightarrow>
               (let cs = start_chat file;
                    s2 = s1\<lparr>chat_session := Some cs\<rparr>;
                    w3 = emit [SendMessage (lit ''Provide the summary.'')] w2 in
                case send_message e cs (lit ''Provide the summary.'') of
                  Inl x \<Rightarrow> Some (Inl x, s2, w3)
                | Inr summary_response \<Rightarrow>
                    (case response_text summary_response of
                       Inl x \<Rightarrow> Some (Inl x, s2, w3)
                     | Inr summary \<Rightarrow>
                         (let s3 = s2\<lparr>pdf_summary := Some summary, chat_history := Some []\<rparr>;
                              (pdf_title', w4) =
                                generate_title_from_summary (generate_content e) summary w3;
                              s4 = s3\<lparr>pdf_title := Some pdf_title'\<rparr>;
                              search_query = lit ''Articles related to: '' @ pdf_title';
                              (found, w5) = tavily_search (tavily_client e) search_query 3 w4
                          in Some (Inr (), s4\<lparr>search_results := Some found\<rparr>, w5))))))"

text \<open>
  Lines 202-207, for a truthy \<open>user_question\<close>: the user's turn is appended, the
  question is sent, and the reply's text is appended. Nothing catches an exception of
  \<open>send_message\<close> or of \<open>response.text\<close>: it leaves the script, and Streamlit shows it.
\<close>

definition ask_question ::
  "env \<Rightarrow> pystr \<Rightarrow> session_state \<Rightarrow> world \<Rightarrow> (exn + unit) \<times> session_state \<times> world" where
  "ask_question e q s w =
     (case append_history (Message (lit ''user'') q) s of
        Inl x \<Rightarrow> (Inl x, s, w)
      | Inr s1 \<Rightarrow>
          (case chat_session s1 of
             None \<Rightarrow> (Inl (AttributeError (lit ''chat_session'')), s1, w)
           | Some cs \<Rightarrow>
               (let w1 = emit [SendMessage q] w in
                case send_message e cs q of
                  Inl x \<Rightarrow> (Inl x, s1, w1)
                | Inr resp \<Rightarrow>
                    (case response_text resp of
                       Inl x \<Rightarrow> (Inl x, s1, w1)
                     | Inr t \<Rightarrow>
                         (case append_history (Message (lit ''assistant'') t) s1 of
                            Inl x \<Rightarrow> (Inl x, s1, w1)
                          | Inr s2 \<Rightarrow> (Inr (), s2, w1))))))"

text \<open>Lines 190-213: the summary panel, the question if there is one, the transcript.\<close>

definition show_document ::
  "env \<Rightarrow> pystr option \<Rightarrow> session_state \<Rightarrow> world \<Rightarrow> (exn + unit) \<times> session_state \<times> world" where
  "show_document e question s w =
     (let w1 = emit [StSuccess (lit ''PDF processed successfully!'')] w in
      case pdf_summary s of
        None \<Rightarrow> (Inl (AttributeError (lit ''pdf_summary'')), s, w1)
      | Some summary \<Rightarrow>
          (let w2 = emit
                 (StWrite summary #
                  (case pdf_title s of
                     None \<Rightarrow> []
                   | Some t \<Rightarrow> [StWrite (lit ''**Generated Title:** '' @ t)])) w1;
               (r, s1, w3) =
                 (case question of
                    None \<Rightarrow> (Inr (), s, w2)
                  | Some q \<Rightarrow> if q \<noteq> [] then ask_question e q s w2 else (Inr (), s, w2))
           in case r of
                Inl x \<Rightarrow> (Inl x, s1, w3)
              | Inr _ \<Rightarrow>
                  (case chat_history s1 of
                     None \<Rightarrow> (Inl (AttributeError (lit ''chat_history'')), s1, w3)
                   | Some h \<Rightarrow>
                       (Inr (), s1,
                        emit (map (\<lambda>m. StChatMessage (role m) (content m)) h) w3))))"

text \<open>
  One run of the block. The result is \<open>None\<close> when the run never ends (the polling
  loop), otherwise the exception that left the script or \<open>()\<close>, the session state and
  the world after. The \<open>with col2\<close> block (lines 218-232) only reads the session state
  to render it and is not modelled.
\<close>

definition col1 ::
  "env \<Rightarrow> run_input \<Rightarrow> session_state \<Rightarrow> world \<Rightarrow> ((exn + unit) \<times> session_state \<times> world) option" where
  "col1 e inp s w =
     (let s0 = (if chat_history s = None then s\<lparr>chat_history := Some []\<rparr> else s) in
      case uploaded_file inp of
        None \<Rightarrow> Some (Inr (), s0, emit [StInfo (lit ''Please upload a PDF file to start chatting.'')] w)
      | Some uploaded \<Rightarrow>
          (case (if gemini_file s0 = None then process_upload e uploaded s0 w
                 else Some (Inr (), s0, w)) of
             None \<Rightarrow> None
           | Some (Inl x, s1, w1) \<Rightarrow> Some (Inl x, s1, w1)
           | Some (Inr _, s1, w1) \<Rightarrow> Some (show_document e (user_question inp) s1 w1)))"

text \<open>
  The state the specification calls \<open>READY\<close>: the document is uploaded and active, the
  chat is open, and summary, title and search results are stored.
\<close>

definition READY :: "session_state \<Rightarrow> bool" where
  "READY s =
     (chat_history s \<noteq> None \<and> gemini_file s \<noteq> None \<and> chat_session s \<noteq> None
      \<and> pdf_summary s \<noteq> None \<and> pdf_title s \<noteq> None \<and> search_results s \<noteq> None)"

text \<open>A session: one run after another, each with its own input and environment.\<close>

fun runs ::
  "(env \<times> run_input) list \<Rightarrow> session_state \<Rightarrow> world \<Rightarrow> (session_state \<times> world) option" where
  "runs [] s w = Some (s, w)"
| "runs ((e, inp) # rest) s w =
     (case col1 e inp s w of
        None \<Rightarrow> None
      | Some (r, s1, w1) \<Rightarrow> runs rest s1 w1)"

section \<open>Vocabulary of the properties and concrete scenarios\<close>

definition retry_trace :: "pystr \<Rightarrow> nat \<Rightarrow> event list" where
  "retry_trace q k = concat (map (\<lambda>i. [TavilySearch (tavily_request q), Sleep (2 ^ i)]) [0..<k])"

fun is_http :: "exn \<Rightarrow> bool" where
  "is_http (HTTPError m) = True"
| "is_http _ = False"

definition http_prefix :: "(nat \<Rightarrow> search_request \<Rightarrow> exn + payload) \<Rightarrow> pystr \<Rightarrow> nat \<Rightarrow> bool" where
  "http_prefix client q k = list_all (\<lambda>i. case client i (tavily_request q) of Inl x \<Rightarrow> is_http x | Inr _ \<Rightarrow> False) [0..<k]"

definition searches :: "event list \<Rightarrow> nat" where
  "searches es = length (filter (\<lambda>ev. case ev of TavilySearch r \<Rightarrow> True | _ \<Rightarrow> False) es)"

definition empty_world :: world where
  "empty_world = \<lparr>fs = Map.empty, trace = []\<rparr>"

definition demo_payload :: payload where
  "demo_payload =
     \<lparr>results = [\<lparr>title = Some (lit ''Solar in 2023''), url = Some (lit ''https://example.org/solar'')\<rparr>,
                 \<lparr>title = Some (lit ''Wind outlook''), url = Some (lit ''https://example.org/wind'')\<rparr>],
      answer = Some (lit ''Renewables keep growing.'')\<rparr>"

definition demo_query :: pystr where
  "demo_query = lit ''Articles related to: Renewable Energy Report''"

definition flaky_client :: "nat \<Rightarrow> search_request \<Rightarrow> exn + payload" where
  "flaky_client k r = (if k < 2 then Inl (HTTPError (lit ''503'')) else Inr demo_payload)"

definition broken_client :: "nat \<Rightarrow> search_request \<Rightarrow> exn + payload" where
  "broken_client k r = Inl (OtherException (lit ''connection reset''))"

definition down_client :: "nat \<Rightarrow> search_request \<Rightarrow> exn + payload" where
  "down_client k r = Inl (HTTPError (lit ''503''))"

definition poll_trace :: "pystr \<Rightarrow> nat \<Rightarrow> event list" where
  "poll_trace nm n = GetFile nm # concat (replicate n [Sleep 2, GetFile nm])"

definition pending :: "(nat \<Rightarrow> exn + pystr) \<Rightarrow> nat \<Rightarrow> bool" where
  "pending get_file n = list_all (\<lambda>i. get_file i = Inr (lit ''PROCESSING'')) [0..<n]"

definition status_after :: "nat \<Rightarrow> pystr \<Rightarrow> pystr \<Rightarrow> nat \<Rightarrow> exn + pystr" where
  "status_after n final nm k = (if k < n then Inr (lit ''PROCESSING'') else Inr final)"

definition demo_file :: gfile where
  "demo_file = GFile (lit ''files/abc123'')"

definition demo_env :: env where
  "demo_env =
     \<lparr>tmp_name = lit ''/tmp/tmpk3x9.pdf'',
      genai_upload_file = (\<lambda>p b. Inr demo_file),
      genai_get_file = status_after 2 (lit ''ACTIVE''),
      send_message =
        (\<lambda>cs m. if m = lit ''Provide the summary.''
                 then Inr (Response (Inr (lit ''A report on renewable energy'')))
                 else Inr (Response (Inr (lit ''It is from 2023.'')))),
      generate_content = (\<lambda>p. Inr (Response (Inr (lit '' Renewable Energy Report'' @ [10])))),
      tavily_client = flaky_client\<rparr>"

fun is_render :: "event \<Rightarrow> bool" where
  "is_render (StError m) = True"
| "is_render (StSuccess m) = True"
| "is_render (StInfo m) = True"
| "is_render (StWrite m) = True"
| "is_render (StChatMessage r c) = True"
| "is_render _ = False"

definition panel :: "session_state \<Rightarrow> event list" where
  "panel s =
     StSuccess (lit ''PDF processed successfully!'') #
     (case pdf_summary s of None \<Rightarrow> [] | Some summary \<Rightarrow> [StWrite summary]) @
     (case pdf_title s of None \<Rightarrow> [] | Some t \<Rightarrow> [StWrite (lit ''**Generated Title:** '' @ t)])"

definition transcript :: "message list \<Rightarrow> event list" where
  "transcript h = map (\<lambda>m. StChatMessage (role m) (content m)) h"

fun asked :: "(env \<times> run_input) list \<Rightarrow> pystr list" where
  "asked [] = []"
| "asked ((e, inp) # rest) =
     (case (uploaded_file inp, user_question inp) of
        (Some uploaded, Some q) \<Rightarrow> if q \<noteq> [] then [q] else []
      | _ \<Rightarrow> []) @ asked rest"

definition calls :: "event list \<Rightarrow> event list" where
  "calls es = filter (\<lambda>ev. \<not> is_render ev) es"

definition kept :: "session_state \<Rightarrow> session_state \<Rightarrow> bool" where
  "kept s s' =
     (gemini_file s' = gemini_file s \<and> chat_session s' = chat_session s
      \<and> pdf_summary s' = pdf_summary s \<and> pdf_title s' = pdf_title s
      \<and> search_results s' = search_results s
      \<and> (\<exists>h h'. chat_history s = Some h \<and> chat_history s' = Some (h @ h')))"

definition summary_a :: pystr where
  "summary_a = lit ''A report on renewable energy''"

definition ready_state :: session_state where
  "ready_state =
     \<lparr>chat_history = Some [Message (lit ''user'') (lit ''Who wrote it?''),
                           Message (lit ''assistant'') (lit ''The energy agency.'')],
      gemini_file = Some demo_file,
      chat_session = Some (start_chat demo_file),
      pdf_summary = Some summary_a,
      pdf_title = Some (lit ''Renewable Energy Report''),
      search_results = Some (Some demo_payload)\<rparr>"

definition other_env :: env where
  "other_env =
     demo_env\<lparr>send_message := (\<lambda>cs m. Inr (Response (Inr (lit ''A cookbook of soups''))))\<rparr>"

definition failing_env :: env where
  "failing_env =
     demo_env\<lparr>send_message := (\<lambda>cs m. Inl (OtherException (lit ''quota exceeded'')))\<rparr>"

definition new_upload :: run_input where
  "new_upload = \<lparr>uploaded_file = Some ''%PDF-1.7 another document'', user_question = None\<rparr>"

definition what_year :: run_input where
  "what_year =
     \<lparr>uploaded_file = Some ''%PDF-1.4 renewable energy'',
      user_question = Some (lit ''What year is this?'')\<rparr>"

definition ready_panel :: "event list" where
  "ready_panel =
     [StSuccess (lit ''PDF processed successfully!''), StWrite summary_a,
      StWrite (lit ''**Generated Title:** '' @ lit ''Renewable Energy Report'')]"

definition ready_transcript :: "event list" where
  "ready_transcript =
     [StChatMessage (lit ''user'') (lit ''Who wrote it?''),
      StChatMessage (lit ''assistant'') (lit ''The energy agency.'')]"

definition unreadable_env :: env where
  "unreadable_env =
     demo_env\<lparr>send_message := (\<lambda>cs m. Inr (Response (Inl (OtherException (lit ''no text part'')))))\<rparr>"

section \<open>Properties\<close>

lemma emit_emit: "emit a (emit b w) = emit (b @ a) w"
  by (simp add: emit_def)

lemma emit_Nil: "emit [] w = w"
  by (simp add: emit_def)

lemma all_dropWhile: "(\<forall>x\<in>set (dropWhile P xs). P x) \<longleftrightarrow> (\<forall>x\<in>set xs. P x)"
  by (induction xs) auto

lemma strip_Nil_iff: "strip q = [] \<longleftrightarrow> (\<forall>c\<in>set q. isspace c)"
  by (simp add: strip_def dropWhile_eq_Nil_conv all_dropWhile)

lemma retry_trace_Suc: "retry_trace q (Suc k) = retry_trace q k @ [TavilySearch (tavily_request q), Sleep (2 ^ k)]"
  by (simp add: retry_trace_def)

lemma upto_step: "j \<le> M - 1 \<Longrightarrow> [j..M - 1] = j # [j + 1..M - 1]"
  by (simp add: upto_rec1)

lemma http_prefix_Suc: "http_prefix client q (Suc k) \<longleftrightarrow> http_prefix client q k \<and> (\<exists>m. client k (tavily_request q) = Inl (HTTPError m))"
  apply (simp add: http_prefix_def split: sum.splits)
  by (metis is_http.elims(2) is_http.simps(1))

lemma tavily_attempts_prefix:
  "http_prefix client q k \<Longrightarrow> int k < M \<Longrightarrow>
   tavily_attempts client q M [0..M - 1] w =
   tavily_attempts client q M [int k..M - 1] (emit (retry_trace q k) w)"
proof (induction k)
  case 0
  then show ?case by (simp add: retry_trace_def emit_Nil)
next
  case (Suc k)
  from Suc.prems obtain m where pre: "http_prefix client q k" and h: "client k (tavily_request q) = Inl (HTTPError m)"
    by (auto simp: http_prefix_Suc)
  from Suc.prems have lt: "int k < M" and ne: "int k \<noteq> M - 1" by auto
  have step: "[int k..M - 1] = int k # [int (Suc k)..M - 1]"
    using lt by (simp add: upto_rec1 add.commute)
  show ?case
    using Suc.IH[OF pre lt] h ne
    by (simp add: step retry_trace_Suc emit_emit)
qed

lemma tavily_attempts_bound:
  "\<exists>es. snd (tavily_attempts client q M xs w) = emit es w \<and> searches es \<le> length xs"
proof (induction xs arbitrary: w)
  case Nil
  show ?case by (rule exI[of _ "[]"]) (simp add: emit_Nil searches_def)
next
  case (Cons a xs)
  let ?T = "TavilySearch (tavily_request q)"
  obtain es where es: "snd (tavily_attempts client q M xs (emit [Sleep (2 ^ nat a)] (emit [?T] w)))
      = emit es (emit [Sleep (2 ^ nat a)] (emit [?T] w))" "searches es \<le> length xs"
    using Cons.IH by blast
  show ?case
  proof (cases "\<exists>m. client (nat a) (tavily_request q) = Inl (HTTPError m) \<and> a \<noteq> M - 1")
    case True
    then show ?thesis
      using es by (intro exI[of _ "[?T, Sleep (2 ^ nat a)] @ es"]) (auto simp: emit_emit searches_def)
  next
    case False
    then show ?thesis
      by (intro exI[of _ "[?T]"]) (auto simp: searches_def Let_def split: sum.splits exn.splits)
  qed
qed

lemma tavily_attempts_last:
  assumes "int k < M"
  shows "client k (tavily_request q) = Inr p \<Longrightarrow>
           tavily_attempts client q M [int k..M - 1] w = (Some p, emit [TavilySearch (tavily_request q)] w)"
    and "client k (tavily_request q) = Inl x \<Longrightarrow> \<not> is_http x \<Longrightarrow>
           tavily_attempts client q M [int k..M - 1] w = (None, emit [TavilySearch (tavily_request q)] w)"
proof -
  have step: "[int k..M - 1] = int k # [int k + 1..M - 1]"
    using assms by (simp add: upto_rec1)
  show "client k (tavily_request q) = Inr p \<Longrightarrow>
           tavily_attempts client q M [int k..M - 1] w = (Some p, emit [TavilySearch (tavily_request q)] w)"
    by (simp add: step)
  show "client k (tavily_request q) = Inl x \<Longrightarrow> \<not> is_http x \<Longrightarrow>
           tavily_attempts client q M [int k..M - 1] w = (None, emit [TavilySearch (tavily_request q)] w)"
    by (cases x) (simp_all add: step)
qed

lemma tavily_attempts_exhausted:
  "client k (tavily_request q) = Inl x \<Longrightarrow>
   tavily_attempts client q (int k + 1) [int k..int k] w
     = (None, emit [TavilySearch (tavily_request q)] w)"
  by (cases x) simp_all

text \<open>
  Claim C3. For a query that is not blank, \<open>tavily_search\<close> makes at most \<open>max_retries\<close>
  search attempts. When the first \<open>k\<close> attempts raise an HTTP error it has slept
  \<open>2 ^ attempt\<close> seconds after each of them (1, 2, 4, ...) and tried again; then a
  successful attempt returns its payload at once, an attempt that raises any other
  exception returns \<open>None\<close> at once, and an HTTP error on the last attempt
  (\<open>attempt = max_retries - 1\<close>) returns \<open>None\<close> with no further sleep or attempt.
\<close>

theorem tavily_search_retries:
  assumes "strip q \<noteq> []"
  shows "(\<exists>es. snd (tavily_search client q M w) = emit es w \<and> int (searches es) \<le> max 0 M)
       \<and> (http_prefix client q k \<and> int k < M \<and> client k (tavily_request q) = Inr p \<longrightarrow>
            tavily_search client q M w
              = (Some p, emit (retry_trace q k @ [TavilySearch (tavily_request q)]) w))
       \<and> (http_prefix client q k \<and> int k < M \<and> client k (tavily_request q) = Inl x \<and> \<not> is_http x \<longrightarrow>
            tavily_search client q M w
              = (None, emit (retry_trace q k @ [TavilySearch (tavily_request q)]) w))
       \<and> (http_prefix client q (Suc k) \<and> int (Suc k) = M \<longrightarrow>
            tavily_search client q M w
              = (None, emit (retry_trace q k @ [TavilySearch (tavily_request q)]) w))"
proof (intro conjI impI)
  obtain es where "snd (tavily_attempts client q M [0..M - 1] w) = emit es w"
    "searches es \<le> length [0..M - 1]"
    using tavily_attempts_bound by blast
  then show "\<exists>es. snd (tavily_search client q M w) = emit es w \<and> int (searches es) \<le> max 0 M"
    using assms by (intro exI[of _ es]) (auto simp: tavily_search_def)
next
  assume a: "http_prefix client q k \<and> int k < M \<and> client k (tavily_request q) = Inr p"
  then show "tavily_search client q M w
              = (Some p, emit (retry_trace q k @ [TavilySearch (tavily_request q)]) w)"
    using assms tavily_attempts_prefix[of client q k M w] tavily_attempts_last(1)[of k M client q p]
    by (simp add: tavily_search_def emit_emit)
next
  assume a: "http_prefix client q k \<and> int k < M \<and> client k (tavily_request q) = Inl x \<and> \<not> is_http x"
  then show "tavily_search client q M w
              = (None, emit (retry_trace q k @ [TavilySearch (tavily_request q)]) w)"
    using assms tavily_attempts_prefix[of client q k M w] tavily_attempts_last(2)[of k M client q x]
    by (simp add: tavily_search_def emit_emit)
next
  assume a: "http_prefix client q (Suc k) \<and> int (Suc k) = M"
  then obtain m where "http_prefix client q k" "client k (tavily_request q) = Inl (HTTPError m)"
    by (auto simp: http_prefix_Suc)
  then show "tavily_search client q M w
              = (None, emit (retry_trace q k @ [TavilySearch (tavily_request q)]) w)"
    using a assms tavily_attempts_prefix[of client q k M w]
      tavily_attempts_exhausted[of client k q "HTTPError m"]
    by (auto simp: tavily_search_def emit_emit add.commute)
qed

text \<open>
  Claim C5. For a query that is empty or made of whitespace only, \<open>tavily_search\<close>
  returns \<open>None\<close> and leaves the world as it was: no search attempt, no sleep.
\<close>

theorem tavily_search_blank:
  assumes "\<forall>c\<in>set q. isspace c"
  shows "tavily_search client q M w = (None, w)"
  using assms by (simp add: tavily_search_def strip_Nil_iff)

text \<open>
  Claim C10. With \<open>max_retries \<le> 0\<close> the range of attempts is empty, so for every
  query (blank or not) \<open>tavily_search\<close> returns \<open>None\<close> without a search attempt.
\<close>

theorem tavily_search_no_retries:
  assumes "M \<le> 0"
  shows "[0..M - 1] = [] \<and> tavily_search client q M w = (None, w)"
  using assms by (simp add: tavily_search_def)

lemma demo_query_not_blank: "strip demo_query \<noteq> []"
  by (simp add: demo_query_def lit_def strip_def isspace_def)

theorem tavily_search_retries_witness:
  "tavily_search flaky_client demo_query 3 empty_world =
     (Some demo_payload,
      emit [TavilySearch (tavily_request demo_query), Sleep 1,
            TavilySearch (tavily_request demo_query), Sleep 2,
            TavilySearch (tavily_request demo_query)] empty_world)
   \<and> tavily_search broken_client demo_query 3 empty_world =
     (None, emit [TavilySearch (tavily_request demo_query)] empty_world)
   \<and> tavily_search down_client demo_query 3 empty_world =
     (None,
      emit [TavilySearch (tavily_request demo_query), Sleep 1,
            TavilySearch (tavily_request demo_query), Sleep 2,
            TavilySearch (tavily_request demo_query)] empty_world)"
proof -
  note T = tavily_search_retries[OF demo_query_not_blank]
  have a: "tavily_search flaky_client demo_query 3 empty_world =
     (Some demo_payload,
      emit [TavilySearch (tavily_request demo_query), Sleep 1,
            TavilySearch (tavily_request demo_query), Sleep 2,
            TavilySearch (tavily_request demo_query)] empty_world)"
    using T[where client = flaky_client and M = 3 and k = 2 and p = demo_payload and w = empty_world]
    by (simp add: http_prefix_def flaky_client_def retry_trace_def numeral_2_eq_2)
  have b: "tavily_search broken_client demo_query 3 empty_world =
     (None, emit [TavilySearch (tavily_request demo_query)] empty_world)"
    using T[where client = broken_client and M = 3 and k = 0
        and x = "OtherException (lit ''connection reset'')" and w = empty_world]
    by (simp add: http_prefix_def broken_client_def retry_trace_def)
  have c: "tavily_search down_client demo_query 3 empty_world =
     (None,
      emit [TavilySearch (tavily_request demo_query), Sleep 1,
            TavilySearch (tavily_request demo_query), Sleep 2,
            TavilySearch (tavily_request demo_query)] empty_world)"
    using T[where client = down_client and M = 3 and k = 2 and w = empty_world]
    by (simp add: http_prefix_def down_client_def retry_trace_def numeral_2_eq_2)
  from a b c show ?thesis by simp
qed

theorem tavily_search_blank_witness:
  "tavily_search flaky_client [] 3 empty_world = (None, empty_world)
   \<and> tavily_search flaky_client (lit ''   '') 3 empty_world = (None, empty_world)"
proof -
  have a: "tavily_search flaky_client [] 3 empty_world = (None, empty_world)"
    by (rule tavily_search_blank) simp
  have b: "tavily_search flaky_client (lit ''   '') 3 empty_world = (None, empty_world)"
    by (rule tavily_search_blank) (simp add: lit_def isspace_def)
  from a b show ?thesis by simp
qed

theorem tavily_search_no_retries_witness:
  "tavily_search flaky_client demo_query 0 empty_world = (None, empty_world)
   \<and> tavily_search flaky_client demo_query (- 2) empty_world = (None, empty_world)"
  using tavily_search_no_retries[of 0 flaky_client demo_query empty_world]
    tavily_search_no_retries[of "- 2" flaky_client demo_query empty_world]
  by simp

lemma pending_iff: "pending g n \<longleftrightarrow> (\<forall>i<n. g i = Inr (lit ''PROCESSING''))"
  by (auto simp: pending_def list_all_iff)

lemma replicate_snoc: "concat (replicate n xs) @ xs = concat (replicate (Suc n) xs)"
  by (induction n) auto

lemma poll_while_pending:
  "(\<forall>i<n. g (k + i) = Inr (lit ''PROCESSING'')) \<Longrightarrow>
   poll_while g nm k (lit ''PROCESSING'') w =
   poll_while g nm (k + n) (lit ''PROCESSING'') (emit (concat (replicate n [Sleep 2, GetFile nm])) w)"
proof (induction n arbitrary: k w)
  case 0
  show ?case by (simp add: emit_Nil)
next
  case (Suc n)
  have first: "g k = Inr (lit ''PROCESSING'')"
    using Suc.prems[rule_format, of 0] by simp
  have rest: "\<forall>i<n. g (Suc k + i) = Inr (lit ''PROCESSING'')"
    using Suc.prems by auto
  have "poll_while g nm k (lit ''PROCESSING'') w
      = poll_while g nm (Suc k) (lit ''PROCESSING'') (emit [Sleep 2, GetFile nm] w)"
    by (subst poll_while.simps) (simp add: first)
  also have "\<dots> = poll_while g nm (Suc k + n) (lit ''PROCESSING'')
      (emit (concat (replicate n [Sleep 2, GetFile nm])) (emit [Sleep 2, GetFile nm] w))"
    by (rule Suc.IH[OF rest])
  finally show ?case
    by (simp add: emit_emit)
qed

lemma poll_while_exit:
  "st \<noteq> lit ''PROCESSING'' \<Longrightarrow> poll_while g nm k st w = Some (Inr st, w)"
  by (subst poll_while.simps) simp

lemma poll_while_Some:
  assumes run: "poll_while g nm k st w = Some y"
  shows "st = lit ''PROCESSING'' \<longrightarrow> (\<exists>i. g (k + i) \<noteq> Inr (lit ''PROCESSING''))"
proof (rule poll_while.raw_induct
    [where P = "\<lambda>g nm k st w y. st = lit ''PROCESSING'' \<longrightarrow> (\<exists>i. g (k + i) \<noteq> Inr (lit ''PROCESSING''))",
      OF _ run])
  fix pw :: "(nat \<Rightarrow> exn + pystr) \<Rightarrow> pystr \<Rightarrow> nat \<Rightarrow> pystr \<Rightarrow> world \<Rightarrow> ((exn + pystr) \<times> world) option"
    and g nm k st w y
  assume IH: "\<And>g' nm' k' st' w' y'. pw g' nm' k' st' w' = Some y' \<Longrightarrow>
      st' = lit ''PROCESSING'' \<longrightarrow> (\<exists>i. g' (k' + i) \<noteq> Inr (lit ''PROCESSING''))"
    and body: "(if st = lit ''PROCESSING''
      then case g k of
           Inl x \<Rightarrow> Some (Inl x, emit [Sleep 2, GetFile nm] w)
           | Inr st' \<Rightarrow> pw g nm (Suc k) st' (emit [Sleep 2, GetFile nm] w)
      else Some (Inr st, w)) = Some y"
  show "st = lit ''PROCESSING'' \<longrightarrow> (\<exists>i. g (k + i) \<noteq> Inr (lit ''PROCESSING''))"
  proof
    assume st: "st = lit ''PROCESSING''"
    show "\<exists>i. g (k + i) \<noteq> Inr (lit ''PROCESSING'')"
    proof (cases "g k = Inr (lit ''PROCESSING'')")
      case True
      with body st have "pw g nm (Suc k) (lit ''PROCESSING'') (emit [Sleep 2, GetFile nm] w) = Some y"
        by simp
      from IH[OF this] obtain i where "g (Suc k + i) \<noteq> Inr (lit ''PROCESSING'')"
        by blast
      then have "g (k + Suc i) \<noteq> Inr (lit ''PROCESSING'')" by simp
      then show ?thesis by blast
    next
      case False
      then have "g (k + 0) \<noteq> Inr (lit ''PROCESSING'')" by simp
      then show ?thesis by blast
    qed
  qed
qed

lemma wait_first:
  assumes "genai_get_file e (file_name f) 0 = Inr st" "st \<noteq> lit ''PROCESSING''"
  shows "wait_for_file_active e f w =
    Some (Inr (st = lit ''ACTIVE''),
      emit (poll_trace (file_name f) 0 @
         (if st = lit ''ACTIVE'' then []
          else [StError (lit ''File '' @ file_name f @ lit '' failed to process'')])) w)"
  using assms by (simp add: wait_for_file_active_def poll_while_exit poll_trace_def emit_emit Let_def)

lemma wait_state:
  assumes p: "\<forall>i<n. genai_get_file e (file_name f) i = Inr (lit ''PROCESSING'')"
    and s: "genai_get_file e (file_name f) n = Inr st" and ne: "st \<noteq> lit ''PROCESSING''"
  shows "wait_for_file_active e f w =
    Some (Inr (st = lit ''ACTIVE''),
      emit (poll_trace (file_name f) n @
         (if st = lit ''ACTIVE'' then []
          else [StError (lit ''File '' @ file_name f @ lit '' failed to process'')])) w)"
proof (cases n)
  case 0
  then show ?thesis using wait_first[OF _ ne] s by simp
next
  case (Suc m)
  let ?g = "genai_get_file e (file_name f)"
  let ?nm = "file_name f"
  have z: "?g 0 = Inr (lit ''PROCESSING'')" using p Suc by simp
  have r: "\<forall>i<m. ?g (1 + i) = Inr (lit ''PROCESSING'')" using p Suc by simp
  have "poll_while ?g ?nm 1 (lit ''PROCESSING'') (emit [GetFile ?nm] w)
     = poll_while ?g ?nm (1 + m) (lit ''PROCESSING'')
         (emit (concat (replicate m [Sleep 2, GetFile ?nm])) (emit [GetFile ?nm] w))"
    by (rule poll_while_pending[OF r])
  also have "\<dots> = poll_while ?g ?nm (Suc (1 + m)) st
         (emit [Sleep 2, GetFile ?nm] (emit (concat (replicate m [Sleep 2, GetFile ?nm])) (emit [GetFile ?nm] w)))"
    using s Suc by (subst poll_while.simps) simp
  also have "\<dots> = Some (Inr st, emit (poll_trace ?nm n) w)"
    using Suc by (simp add: poll_while_exit[OF ne] emit_emit poll_trace_def replicate_snoc[symmetric] del: replicate.simps)
  finally show ?thesis
    using z by (simp add: wait_for_file_active_def emit_emit Let_def)
qed

lemma wait_raise:
  assumes p: "\<forall>i<n. genai_get_file e (file_name f) i = Inr (lit ''PROCESSING'')"
    and s: "genai_get_file e (file_name f) n = Inl x"
  shows "wait_for_file_active e f w = Some (Inl x, emit (poll_trace (file_name f) n) w)"
proof (cases n)
  case 0
  then show ?thesis using s by (simp add: wait_for_file_active_def poll_trace_def Let_def)
next
  case (Suc m)
  let ?g = "genai_get_file e (file_name f)"
  let ?nm = "file_name f"
  have z: "?g 0 = Inr (lit ''PROCESSING'')" using p Suc by simp
  have r: "\<forall>i<m. ?g (1 + i) = Inr (lit ''PROCESSING'')" using p Suc by simp
  have "poll_while ?g ?nm 1 (lit ''PROCESSING'') (emit [GetFile ?nm] w)
     = poll_while ?g ?nm (1 + m) (lit ''PROCESSING'')
         (emit (concat (replicate m [Sleep 2, GetFile ?nm])) (emit [GetFile ?nm] w))"
    by (rule poll_while_pending[OF r])
  also have "\<dots> = Some (Inl x, emit (poll_trace ?nm n) w)"
    using s Suc by (subst poll_while.simps) (simp add: emit_emit poll_trace_def replicate_snoc[symmetric] del: replicate.simps)
  finally show ?thesis
    using z by (simp add: wait_for_file_active_def Let_def)
qed

lemma wait_forever:
  assumes "\<forall>i. genai_get_file e (file_name f) i = Inr (lit ''PROCESSING'')"
  shows "wait_for_file_active e f w = None"
proof -
  let ?g = "genai_get_file e (file_name f)"
  have "poll_while ?g (file_name f) 1 (lit ''PROCESSING'') (emit [GetFile (file_name f)] w) = None"
  proof (rule ccontr)
    assume "poll_while ?g (file_name f) 1 (lit ''PROCESSING'') (emit [GetFile (file_name f)] w) \<noteq> None"
    then obtain y where "poll_while ?g (file_name f) 1 (lit ''PROCESSING'') (emit [GetFile (file_name f)] w) = Some y"
      by blast
    from poll_while_Some[OF this] show False using assms by simp
  qed
  then show ?thesis using assms by (simp add: wait_for_file_active_def Let_def)
qed

text \<open>
  Claim C4. \<open>wait_for_file_active\<close> queries the state of the file again and again,
  sleeping 2 seconds before each further query, as long as the state read is
  \<open>PROCESSING\<close> (the state the specification calls \<open>PENDING\<close>). When the first \<open>n\<close>
  queries read \<open>PROCESSING\<close> and the next one reads another state, it returns after
  \<open>n + 1\<close> queries and \<open>n\<close> sleeps: \<open>True\<close> if that state is \<open>ACTIVE\<close>, otherwise
  \<open>False\<close> after showing the error \<open>File ... failed to process\<close>.
\<close>

theorem wait_for_file_active_result:
  assumes "\<forall>i<n. genai_get_file e (file_name f) i = Inr (lit ''PROCESSING'')"
    and "genai_get_file e (file_name f) n = Inr st"
    and "st \<noteq> lit ''PROCESSING''"
  shows "wait_for_file_active e f w =
    Some (Inr (st = lit ''ACTIVE''),
      emit (poll_trace (file_name f) n @
         (if st = lit ''ACTIVE'' then []
          else [StError (lit ''File '' @ file_name f @ lit '' failed to process'')])) w)"
  using assms by (rule wait_state)

lemma lit_append: "lit (a @ b) = lit a @ lit b"
  by (simp add: lit_def)

lemma state_names_differ:
  "lit ''ACTIVE'' \<noteq> lit ''PROCESSING''" "lit ''FAILED'' \<noteq> lit ''PROCESSING''"
  "lit ''FAILED'' \<noteq> lit ''ACTIVE''"
  by (simp_all add: lit_def)

lemma demo_env_get_file: "genai_get_file demo_env = status_after 2 (lit ''ACTIVE'')"
  by (simp add: demo_env_def)

lemma demo_file_name: "file_name demo_file = lit ''files/abc123''"
  by (simp add: demo_file_def)

lemma poll_trace_2: "poll_trace nm 2 = [GetFile nm, Sleep 2, GetFile nm, Sleep 2, GetFile nm]"
  by (simp add: poll_trace_def numeral_2_eq_2)

lemma poll_trace_1: "poll_trace nm 1 = [GetFile nm, Sleep 2, GetFile nm]"
  by (simp add: poll_trace_def)

lemma failed_message:
  "lit ''File '' @ lit ''files/abc123'' @ lit '' failed to process''
     = lit ''File files/abc123 failed to process''"
  by (simp add: lit_def)

theorem wait_for_file_active_result_witness:
  "wait_for_file_active demo_env demo_file empty_world =
     Some (Inr True,
       emit [GetFile (lit ''files/abc123''), Sleep 2, GetFile (lit ''files/abc123''),
             Sleep 2, GetFile (lit ''files/abc123'')] empty_world)
   \<and> wait_for_file_active (demo_env\<lparr>genai_get_file := status_after 1 (lit ''FAILED'')\<rparr>)
        demo_file empty_world =
     Some (Inr False,
       emit [GetFile (lit ''files/abc123''), Sleep 2, GetFile (lit ''files/abc123''),
             StError (lit ''File files/abc123 failed to process'')] empty_world)"
proof -
  let ?e = "demo_env\<lparr>genai_get_file := status_after 1 (lit ''FAILED'')\<rparr>"
  have a1: "\<forall>i<2. genai_get_file demo_env (file_name demo_file) i = Inr (lit ''PROCESSING'')"
    by (simp add: demo_env_get_file status_after_def)
  have a2: "genai_get_file demo_env (file_name demo_file) 2 = Inr (lit ''ACTIVE'')"
    by (simp add: demo_env_get_file status_after_def)
  have a: "wait_for_file_active demo_env demo_file empty_world =
     Some (Inr True,
       emit [GetFile (lit ''files/abc123''), Sleep 2, GetFile (lit ''files/abc123''),
             Sleep 2, GetFile (lit ''files/abc123'')] empty_world)"
    using wait_for_file_active_result[OF a1 a2 state_names_differ(1), of empty_world]
    by (simp only: poll_trace_2 demo_file_name if_True append_Nil2 simp_thms)
  have b1: "\<forall>i<1. genai_get_file ?e (file_name demo_file) i = Inr (lit ''PROCESSING'')"
    by (simp add: status_after_def)
  have b2: "genai_get_file ?e (file_name demo_file) 1 = Inr (lit ''FAILED'')"
    by (simp add: status_after_def)
  have b: "wait_for_file_active ?e demo_file empty_world =
     Some (Inr False,
       emit [GetFile (lit ''files/abc123''), Sleep 2, GetFile (lit ''files/abc123''),
             StError (lit ''File files/abc123 failed to process'')] empty_world)"
    using wait_for_file_active_result[OF b1 b2 state_names_differ(2), of empty_world]
      state_names_differ(3)
    by (simp only: poll_trace_1 demo_file_name failed_message if_False append.simps simp_thms)
  show ?thesis
    using a b by (rule conjI)
qed

text \<open>
  Claim C9. The polling loop of \<open>wait_for_file_active\<close> has no bound. If some status
  query does not read \<open>PROCESSING\<close> the call returns, having slept 2 seconds before
  every query but the first; if every query reads \<open>PROCESSING\<close> the call never returns;
  and for every \<open>N\<close> the service that reads \<open>PROCESSING\<close> \<open>N\<close> times and then
  \<open>ACTIVE\<close> makes it poll \<open>N + 1\<close> times and sleep \<open>N\<close> times 2 seconds.
\<close>

theorem wait_for_file_active_unbounded:
  "((\<exists>n. genai_get_file e (file_name f) n \<noteq> Inr (lit ''PROCESSING'')) \<longrightarrow>
      (\<exists>r n shown. wait_for_file_active e f w = Some (r, emit (poll_trace (file_name f) n @ shown) w)
          \<and> (shown = [] \<or> shown = [StError (lit ''File '' @ file_name f @ lit '' failed to process'')])))
 \<and> ((\<forall>n. genai_get_file e (file_name f) n = Inr (lit ''PROCESSING'')) \<longrightarrow>
      wait_for_file_active e f w = None)
 \<and> (\<forall>N. wait_for_file_active (e\<lparr>genai_get_file := status_after N (lit ''ACTIVE'')\<rparr>) f w =
        Some (Inr True, emit (poll_trace (file_name f) N) w))"
proof (intro conjI impI allI)
  let ?g = "genai_get_file e (file_name f)"
  assume ex: "\<exists>n. ?g n \<noteq> Inr (lit ''PROCESSING'')"
  define n where "n = (LEAST n. ?g n \<noteq> Inr (lit ''PROCESSING''))"
  have stop: "?g n \<noteq> Inr (lit ''PROCESSING'')"
    unfolding n_def using ex by (rule LeastI_ex)
  have before: "\<forall>i<n. ?g i = Inr (lit ''PROCESSING'')"
    unfolding n_def using not_less_Least by blast
  show "\<exists>r n shown. wait_for_file_active e f w = Some (r, emit (poll_trace (file_name f) n @ shown) w)
          \<and> (shown = [] \<or> shown = [StError (lit ''File '' @ file_name f @ lit '' failed to process'')])"
  proof (cases "?g n")
    case (Inl x)
    have "wait_for_file_active e f w = Some (Inl x, emit (poll_trace (file_name f) n @ []) w)"
      using wait_raise[OF before Inl] by simp
    then show ?thesis by blast
  next
    case (Inr st)
    with stop have ne: "st \<noteq> lit ''PROCESSING''" by simp
    have "wait_for_file_active e f w =
        Some (Inr (st = lit ''ACTIVE''),
          emit (poll_trace (file_name f) n @
            (if st = lit ''ACTIVE'' then []
             else [StError (lit ''File '' @ file_name f @ lit '' failed to process'')])) w)"
      by (rule wait_state[OF before Inr ne])
    then show ?thesis
      by (intro exI[of _ "Inr (st = lit ''ACTIVE'')"] exI[of _ n]
          exI[of _ "if st = lit ''ACTIVE'' then []
             else [StError (lit ''File '' @ file_name f @ lit '' failed to process'')]"]) simp
  qed
next
  assume "\<forall>n. genai_get_file e (file_name f) n = Inr (lit ''PROCESSING'')"
  then show "wait_for_file_active e f w = None"
    by (rule wait_forever)
next
  fix N
  have ne: "lit ''ACTIVE'' \<noteq> lit ''PROCESSING''"
    by (simp add: lit_def)
  show "wait_for_file_active (e\<lparr>genai_get_file := status_after N (lit ''ACTIVE'')\<rparr>) f w =
        Some (Inr True, emit (poll_trace (file_name f) N) w)"
    using wait_state[of N "e\<lparr>genai_get_file := status_after N (lit ''ACTIVE'')\<rparr>" f "lit ''ACTIVE''" w] ne
    by (simp add: status_after_def)
qed

theorem wait_for_file_active_unbounded_witness:
  "wait_for_file_active (demo_env\<lparr>genai_get_file := (\<lambda>nm k. Inr (lit ''PROCESSING''))\<rparr>)
      demo_file empty_world = None
   \<and> (\<exists>r n shown. wait_for_file_active demo_env demo_file empty_world =
          Some (r, emit (poll_trace (file_name demo_file) n @ shown) empty_world)
        \<and> (shown = [] \<or> shown = [StError (lit ''File '' @ file_name demo_file @ lit '' failed to process'')]))
   \<and> wait_for_file_active (demo_env\<lparr>genai_get_file := status_after 5 (lit ''ACTIVE'')\<rparr>)
      demo_file empty_world =
        Some (Inr True, emit (poll_trace (file_name demo_file) 5) empty_world)"
proof (intro conjI)
  let ?stuck = "demo_env\<lparr>genai_get_file := (\<lambda>nm k. Inr (lit ''PROCESSING''))\<rparr>"
  have stuck: "\<forall>n. genai_get_file ?stuck (file_name demo_file) n = Inr (lit ''PROCESSING'')"
    by simp
  show "wait_for_file_active ?stuck demo_file empty_world = None"
    by (rule wait_for_file_active_unbounded[THEN conjunct2, THEN conjunct1, THEN mp, OF stuck])
next
  have "genai_get_file demo_env (file_name demo_file) 2 = Inr (lit ''ACTIVE'')"
    by (simp add: demo_env_get_file status_after_def)
  then have "genai_get_file demo_env (file_name demo_file) 2 \<noteq> Inr (lit ''PROCESSING'')"
    using state_names_differ(1) by simp
  then have ex: "\<exists>n. genai_get_file demo_env (file_name demo_file) n \<noteq> Inr (lit ''PROCESSING'')"
    by (rule exI[of _ 2])
  show "\<exists>r n shown. wait_for_file_active demo_env demo_file empty_world =
          Some (r, emit (poll_trace (file_name demo_file) n @ shown) empty_world)
        \<and> (shown = [] \<or> shown = [StError (lit ''File '' @ file_name demo_file @ lit '' failed to process'')])"
    by (rule wait_for_file_active_unbounded[THEN conjunct1, THEN mp, OF ex])
next
  show "wait_for_file_active (demo_env\<lparr>genai_get_file := status_after 5 (lit ''ACTIVE'')\<rparr>)
      demo_file empty_world =
        Some (Inr True, emit (poll_trace (file_name demo_file) 5) empty_world)"
    by (rule wait_for_file_active_unbounded[THEN conjunct2, THEN conjunct2, rule_format])
qed

lemma fs_emit: "fs (emit es w) = fs w"
  by (simp add: emit_def)

lemma trace_emit: "trace (emit es w) = trace w @ es"
  by (simp add: emit_def)

lemma emit_fs_update: "emit es (w\<lparr>fs := m\<rparr>) = (emit es w)\<lparr>fs := m\<rparr>"
  by (simp add: emit_def)

text \<open>
  Claim C7. \<open>upload_to_gemini\<close> writes the uploaded bytes to the temporary file, sends
  that file, and unlinks it whatever the remote upload did: the result is the upload's
  own outcome (its handle, or the exception it raised, which propagates), the trace is
  write, upload, unlink, and the temporary path is absent from the file system after.
\<close>

theorem upload_to_gemini_unlinks:
  "upload_to_gemini e uploaded w =
     (genai_upload_file e (tmp_name e) uploaded,
      emit [TmpWrite (tmp_name e) uploaded, UploadFile (tmp_name e) uploaded, Unlink (tmp_name e)]
        (w\<lparr>fs := (fs w)(tmp_name e := None)\<rparr>))
   \<and> fs (snd (upload_to_gemini e uploaded w)) (tmp_name e) = None"
  by (simp add: upload_to_gemini_def os_unlink_def Let_def fs_emit emit_emit emit_fs_update)

text \<open>
  Claim C6. \<open>generate_title_from_summary\<close> makes one generation request. When the
  request raises, or reading the text of the response raises, it returns
  \<open>Untitled Document\<close>; otherwise it returns the generated text stripped of
  surrounding whitespace. No exception leaves the function.
\<close>

theorem generate_title_fallback:
  "(model (title_prompt summary) = Inl x \<longrightarrow>
      fst (generate_title_from_summary model summary w) = lit ''Untitled Document'')
 \<and> (model (title_prompt summary) = Inr (Response (Inl x)) \<longrightarrow>
      fst (generate_title_from_summary model summary w) = lit ''Untitled Document'')
 \<and> (model (title_prompt summary) = Inr (Response (Inr t)) \<longrightarrow>
      fst (generate_title_from_summary model summary w) = strip t)
 \<and> snd (generate_title_from_summary model summary w) = emit [GenerateContent (title_prompt summary)] w"
  by (simp add: generate_title_from_summary_def Let_def split: sum.splits)

lemma READY_D:
  "READY s \<Longrightarrow> \<exists>h f cs sm t r. chat_history s = Some h \<and> gemini_file s = Some f \<and> chat_session s = Some cs
      \<and> pdf_summary s = Some sm \<and> pdf_title s = Some t \<and> search_results s = Some r"
  by (auto simp: READY_def)

lemma col1_stored:
  assumes "gemini_file s \<noteq> None" "chat_history s \<noteq> None"
  shows "col1 e \<lparr>uploaded_file = Some uploaded, user_question = uq\<rparr> s w = Some (show_document e uq s w)"
  using assms by (auto simp: col1_def Let_def)

lemma show_document_quiet:
  assumes "READY s" "chat_history s = Some h" "uq = None \<or> uq = Some []"
  shows "show_document e uq s w = (Inr (), s, emit (panel s @ transcript h) w)"
  using assms READY_D[OF assms(1)]
  by (auto simp: show_document_def Let_def panel_def transcript_def emit_emit)

lemma show_document_reply:
  assumes "READY s" "chat_history s = Some h" "chat_session s = Some cs" "q \<noteq> []"
    "send_message e cs q = Inr (Response (Inr t))"
  shows "show_document e (Some q) s w =
     (Inr (), s\<lparr>chat_history := Some (h @ [Message (lit ''user'') q, Message (lit ''assistant'') t])\<rparr>,
      emit (panel s @ [SendMessage q] @ transcript (h @ [Message (lit ''user'') q, Message (lit ''assistant'') t])) w)"
  using assms READY_D[OF assms(1)]
  by (auto simp: show_document_def ask_question_def append_history_def Let_def panel_def transcript_def emit_emit)

lemma show_document_failed:
  assumes "READY s" "chat_history s = Some h" "chat_session s = Some cs" "q \<noteq> []"
    "send_message e cs q = Inl x \<or> send_message e cs q = Inr (Response (Inl x))"
  shows "show_document e (Some q) s w =
     (Inl x, s\<lparr>chat_history := Some (h @ [Message (lit ''user'') q])\<rparr>,
      emit (panel s @ [SendMessage q]) w)"
  using assms READY_D[OF assms(1)]
  by (auto simp: show_document_def ask_question_def append_history_def Let_def panel_def transcript_def emit_emit)

lemma calls_append: "calls (a @ b) = calls a @ calls b"
  by (simp add: calls_def)

lemma calls_send: "calls (SendMessage q # es) = SendMessage q # calls es" "calls [] = []"
  by (simp_all add: calls_def)

lemma calls_panel: "calls (panel s) = []"
  by (simp add: calls_def panel_def split: option.splits)

lemma calls_transcript: "calls (transcript h) = []"
  by (induction h) (simp_all add: calls_def transcript_def)

lemma col1_READY_I:
  "col1 e inp s w = Some (r, s', emit es w) \<Longrightarrow> READY s' \<Longrightarrow> kept s s' \<Longrightarrow>
   calls es = map SendMessage (asked [(e, inp)]) \<Longrightarrow>
   \<exists>r s' es. col1 e inp s w = Some (r, s', emit es w) \<and> READY s' \<and> kept s s'
           \<and> calls es = map SendMessage (asked [(e, inp)])"
  by blast

lemma col1_READY:
  assumes "READY s"
  shows "\<exists>r s' es. col1 e inp s w = Some (r, s', emit es w) \<and> READY s' \<and> kept s s'
           \<and> calls es = map SendMessage (asked [(e, inp)])"
proof -
  obtain h f cs sm t sr where st: "chat_history s = Some h" "gemini_file s = Some f"
    "chat_session s = Some cs" "pdf_summary s = Some sm" "pdf_title s = Some t"
    "search_results s = Some sr"
    using READY_D[OF assms] by blast
  obtain up uq where inp: "inp = \<lparr>uploaded_file = up, user_question = uq\<rparr>"
    by (cases inp) simp
  show ?thesis
  proof (cases up)
    case None
    have "col1 e inp s w = Some (Inr (), s, emit [StInfo (lit ''Please upload a PDF file to start chatting.'')] w)"
      using st None inp by (simp add: col1_def)
    then show ?thesis
      by (rule col1_READY_I) (insert assms st None inp, simp_all add: kept_def calls_def)
  next
    case (Some uploaded)
    have run: "col1 e inp s w = Some (show_document e uq s w)"
      using col1_stored[of s e uploaded uq w] st Some inp by simp
    consider (quiet) "uq = None \<or> uq = Some []"
      | (reply) q a where "uq = Some q" "q \<noteq> []" "send_message e cs q = Inr (Response (Inr a))"
      | (failed) q x where "uq = Some q" "q \<noteq> []"
          "send_message e cs q = Inl x \<or> send_message e cs q = Inr (Response (Inl x))"
    proof (cases uq)
      case None
      then show ?thesis using quiet by simp
    next
      case (Some q)
      show ?thesis
      proof (cases "q = []")
        case True
        then show ?thesis using quiet Some by simp
      next
        case False
        show ?thesis
        proof (cases "send_message e cs q")
          case (Inl x)
          then show ?thesis using failed Some False by simp
        next
          case (Inr resp)
          then show ?thesis
            using reply[of q] failed[of q] Some False
            by (cases resp; cases "response_text resp") auto
        qed
      qed
    qed
    then show ?thesis
    proof cases
      case quiet
      have "show_document e uq s w = (Inr (), s, emit (panel s @ transcript h) w)"
        by (rule show_document_quiet[OF assms st(1) quiet])
      with run have "col1 e inp s w = Some (Inr (), s, emit (panel s @ transcript h) w)"
        by simp
      then show ?thesis
        by (rule col1_READY_I)
          (insert assms st quiet Some inp, auto simp: kept_def calls_append calls_panel calls_transcript)
    next
      case reply
      have "show_document e (Some q) s w =
        (Inr (), s\<lparr>chat_history := Some (h @ [Message (lit ''user'') q, Message (lit ''assistant'') a])\<rparr>,
         emit (panel s @ [SendMessage q] @ transcript (h @ [Message (lit ''user'') q, Message (lit ''assistant'') a])) w)"
        by (rule show_document_reply[OF assms st(1) st(3) reply(2) reply(3)])
      with run reply have "col1 e inp s w =
        Some (Inr (), s\<lparr>chat_history := Some (h @ [Message (lit ''user'') q, Message (lit ''assistant'') a])\<rparr>,
         emit (panel s @ [SendMessage q] @ transcript (h @ [Message (lit ''user'') q, Message (lit ''assistant'') a])) w)"
        by simp
      then show ?thesis
        by (rule col1_READY_I)
          (insert assms st reply Some inp,
            auto simp: kept_def calls_append calls_panel calls_transcript READY_def calls_send)
    next
      case failed
      have "show_document e (Some q) s w =
        (Inl x, s\<lparr>chat_history := Some (h @ [Message (lit ''user'') q])\<rparr>,
         emit (panel s @ [SendMessage q]) w)"
        by (rule show_document_failed[OF assms st(1) st(3) failed(2) failed(3)])
      with run failed have "col1 e inp s w =
        Some (Inl x, s\<lparr>chat_history := Some (h @ [Message (lit ''user'') q])\<rparr>,
         emit (panel s @ [SendMessage q]) w)"
        by simp
      then show ?thesis
        by (rule col1_READY_I)
          (insert assms st failed Some inp,
            auto simp: kept_def calls_append calls_panel calls_transcript READY_def calls_send)
    qed
  qed
qed

lemma kept_trans: "kept s s' \<Longrightarrow> kept s' s'' \<Longrightarrow> kept s s''"
  by (auto simp: kept_def)

lemma kept_refl: "chat_history s \<noteq> None \<Longrightarrow> kept s s"
  by (auto simp: kept_def)

lemma asked_Cons: "asked (x # rest) = asked [x] @ asked rest"
  by (cases x) simp

lemma runs_READY:
  assumes "READY s"
  shows "\<exists>s' es. runs rs s w = Some (s', emit es w) \<and> READY s' \<and> kept s s'
           \<and> calls es = map SendMessage (asked rs)"
  using assms
proof (induction rs arbitrary: s w)
  case Nil
  then show ?case
    by (intro exI[of _ s] exI[of _ "[]"]) (simp add: emit_Nil kept_refl READY_def calls_def)
next
  case (Cons x rs)
  obtain e inp where x: "x = (e, inp)" by (cases x)
  obtain r s1 es1 where one: "col1 e inp s w = Some (r, s1, emit es1 w)" "READY s1" "kept s s1"
    "calls es1 = map SendMessage (asked [(e, inp)])"
    using col1_READY[OF Cons.prems] by blast
  obtain s2 es2 where more: "runs rs s1 (emit es1 w) = Some (s2, emit es2 (emit es1 w))" "READY s2"
    "kept s1 s2" "calls es2 = map SendMessage (asked rs)"
    using Cons.IH[OF one(2)] by blast
  have "runs (x # rs) s w = Some (s2, emit (es1 @ es2) w)"
    using x one(1) more(1) by (simp add: emit_emit)
  moreover have "calls (es1 @ es2) = map SendMessage (asked (x # rs))"
    using one(4) more(4) x asked_Cons[of x rs] by (simp add: calls_append)
  ultimately show ?case
    using more(2) kept_trans[OF one(3) more(3)] by blast
qed

lemma ready_state_READY: "READY ready_state"
  by (simp add: READY_def ready_state_def)

lemma ready_state_fields:
  "chat_history ready_state = Some [Message (lit ''user'') (lit ''Who wrote it?''),
                           Message (lit ''assistant'') (lit ''The energy agency.'')]"
  "chat_session ready_state = Some (start_chat demo_file)"
  "gemini_file ready_state = Some demo_file"
  "pdf_summary ready_state = Some summary_a"
  "pdf_title ready_state = Some (lit ''Renewable Energy Report'')"
  "search_results ready_state = Some (Some demo_payload)"
  by (simp_all add: ready_state_def)

lemma ready_state_panel: "panel ready_state = ready_panel"
  by (simp add: panel_def ready_panel_def ready_state_fields)

lemma ready_state_transcript:
  "transcript [Message (lit ''user'') (lit ''Who wrote it?''),
               Message (lit ''assistant'') (lit ''The energy agency.'')] = ready_transcript"
  by (simp add: transcript_def ready_transcript_def)

lemma panel_history: "panel (s\<lparr>chat_history := x\<rparr>) = panel s"
  by (simp add: panel_def)

lemma READY_history: "READY s \<Longrightarrow> READY (s\<lparr>chat_history := Some x\<rparr>)"
  by (simp add: READY_def)

lemma demo_title_stripped:
  "strip (lit '' Renewable Energy Report'' @ [10]) = lit ''Renewable Energy Report''"
  by (simp add: strip_def lit_def isspace_def)

lemma demo_env_fields:
  "tmp_name demo_env = lit ''/tmp/tmpk3x9.pdf''"
  "genai_upload_file demo_env p b = Inr demo_file"
  "generate_content demo_env p = Inr (Response (Inr (lit '' Renewable Energy Report'' @ [10])))"
  by (simp_all add: demo_env_def)

theorem upload_to_gemini_unlinks_witness:
  "upload_to_gemini demo_env ''%PDF-1.4 renewable energy'' empty_world =
     (Inr demo_file,
      emit [TmpWrite (lit ''/tmp/tmpk3x9.pdf'') ''%PDF-1.4 renewable energy'',
            UploadFile (lit ''/tmp/tmpk3x9.pdf'') ''%PDF-1.4 renewable energy'',
            Unlink (lit ''/tmp/tmpk3x9.pdf'')]
        (empty_world\<lparr>fs := (fs empty_world)(lit ''/tmp/tmpk3x9.pdf'' := None)\<rparr>))
   \<and> fst (upload_to_gemini (demo_env\<lparr>genai_upload_file := (\<lambda>p b. Inl (OtherException (lit ''503'')))\<rparr>)
        ''%PDF-1.4 renewable energy'' empty_world) = Inl (OtherException (lit ''503''))
   \<and> fs (snd (upload_to_gemini (demo_env\<lparr>genai_upload_file := (\<lambda>p b. Inl (OtherException (lit ''503'')))\<rparr>)
        ''%PDF-1.4 renewable energy'' empty_world)) (lit ''/tmp/tmpk3x9.pdf'') = None"
proof (intro conjI)
  show "upload_to_gemini demo_env ''%PDF-1.4 renewable energy'' empty_world =
     (Inr demo_file,
      emit [TmpWrite (lit ''/tmp/tmpk3x9.pdf'') ''%PDF-1.4 renewable energy'',
            UploadFile (lit ''/tmp/tmpk3x9.pdf'') ''%PDF-1.4 renewable energy'',
            Unlink (lit ''/tmp/tmpk3x9.pdf'')]
        (empty_world\<lparr>fs := (fs empty_world)(lit ''/tmp/tmpk3x9.pdf'' := None)\<rparr>))"
    using upload_to_gemini_unlinks[of demo_env "''%PDF-1.4 renewable energy''" empty_world, THEN conjunct1]
    by (simp only: demo_env_fields)
next
  let ?e = "demo_env\<lparr>genai_upload_file := (\<lambda>p b. Inl (OtherException (lit ''503'')))\<rparr>"
  have up: "genai_upload_file ?e (tmp_name ?e) ''%PDF-1.4 renewable energy'' = Inl (OtherException (lit ''503''))"
    by simp
  show "fst (upload_to_gemini ?e ''%PDF-1.4 renewable energy'' empty_world) = Inl (OtherException (lit ''503''))"
    using upload_to_gemini_unlinks[of ?e "''%PDF-1.4 renewable energy''" empty_world, THEN conjunct1]
    by (simp only: up fst_conv)
next
  let ?e = "demo_env\<lparr>genai_upload_file := (\<lambda>p b. Inl (OtherException (lit ''503'')))\<rparr>"
  have nm: "tmp_name ?e = lit ''/tmp/tmpk3x9.pdf''"
    by (simp add: demo_env_fields)
  show "fs (snd (upload_to_gemini ?e ''%PDF-1.4 renewable energy'' empty_world)) (lit ''/tmp/tmpk3x9.pdf'') = None"
    using upload_to_gemini_unlinks[of ?e "''%PDF-1.4 renewable energy''" empty_world, THEN conjunct2]
    by (simp only: nm)
qed

theorem generate_title_fallback_witness:
  "fst (generate_title_from_summary (\<lambda>p. Inl (OtherException (lit ''503''))) summary_a empty_world)
     = lit ''Untitled Document''
   \<and> fst (generate_title_from_summary
            (\<lambda>p. Inr (Response (Inl (OtherException (lit ''no text part''))))) summary_a empty_world)
     = lit ''Untitled Document''
   \<and> fst (generate_title_from_summary (generate_content demo_env) summary_a empty_world)
     = lit ''Renewable Energy Report''"
proof (intro conjI)
  show "fst (generate_title_from_summary (\<lambda>p. Inl (OtherException (lit ''503''))) summary_a empty_world)
     = lit ''Untitled Document''"
    by (rule generate_title_fallback[THEN conjunct1, THEN mp]) (rule refl)
next
  show "fst (generate_title_from_summary
            (\<lambda>p. Inr (Response (Inl (OtherException (lit ''no text part''))))) summary_a empty_world)
     = lit ''Untitled Document''"
    by (rule generate_title_fallback[THEN conjunct2, THEN conjunct1, THEN mp]) (rule refl)
next
  have "fst (generate_title_from_summary (generate_content demo_env) summary_a empty_world)
     = strip (lit '' Renewable Energy Report'' @ [10])"
    by (rule generate_title_fallback[THEN conjunct2, THEN conjunct2, THEN conjunct1, THEN mp])
      (rule demo_env_fields)
  then show "fst (generate_title_from_summary (generate_content demo_env) summary_a empty_world)
     = lit ''Renewable Energy Report''"
    by (simp only: demo_title_stripped)
qed

lemma col1_READY_stored:
  assumes "READY s"
  shows "col1 e \<lparr>uploaded_file = Some uploaded, user_question = uq\<rparr> s w = Some (show_document e uq s w)"
  using assms by (intro col1_stored) (simp_all add: READY_def)

lemma col1_quiet:
  assumes "READY s" "chat_history s = Some h"
  shows "col1 e \<lparr>uploaded_file = Some uploaded, user_question = None\<rparr> s w =
           Some (Inr (), s, emit (panel s @ transcript h) w)"
  using col1_READY_stored[OF assms(1)] show_document_quiet[OF assms] by simp

lemma col1_reply:
  assumes "READY s" "chat_history s = Some h" "chat_session s = Some cs" "q \<noteq> []"
    "send_message e cs q = Inr (Response (Inr t))"
  shows "col1 e \<lparr>uploaded_file = Some uploaded, user_question = Some q\<rparr> s w =
     Some (Inr (), s\<lparr>chat_history := Some (h @ [Message (lit ''user'') q, Message (lit ''assistant'') t])\<rparr>,
      emit (panel s @ [SendMessage q] @ transcript (h @ [Message (lit ''user'') q, Message (lit ''assistant'') t])) w)"
  using col1_READY_stored[OF assms(1)] show_document_reply[OF assms] by simp

lemma col1_failed:
  assumes "READY s" "chat_history s = Some h" "chat_session s = Some cs" "q \<noteq> []"
    "send_message e cs q = Inl x \<or> send_message e cs q = Inr (Response (Inl x))"
  shows "col1 e \<lparr>uploaded_file = Some uploaded, user_question = Some q\<rparr> s w =
     Some (Inl x, s\<lparr>chat_history := Some (h @ [Message (lit ''user'') q])\<rparr>,
      emit (panel s @ [SendMessage q]) w)"
  using col1_READY_stored[OF assms(1)] show_document_failed[OF assms] by simp

lemma send_message_cases:
  obtains (raised) x where "send_message e cs q = Inl x"
  | (unreadable) x where "send_message e cs q = Inr (Response (Inl x))"
  | (reply) t where "send_message e cs q = Inr (Response (Inr t))"
proof (cases "send_message e cs q")
  case (Inl x)
  then show ?thesis by (rule raised)
next
  case (Inr resp)
  then show ?thesis
  proof (cases resp)
    case (Response rt)
    then show ?thesis using Inr unreadable reply by (cases rt) auto
  qed
qed

lemma what_year_not_empty: "lit ''What year is this?'' \<noteq> []"
  by (simp add: lit_def)

lemma env_sends:
  "send_message failing_env cs m = Inl (OtherException (lit ''quota exceeded''))"
  "send_message other_env cs m = Inr (Response (Inr (lit ''A cookbook of soups'')))"
  by (simp_all add: failing_env_def other_env_def)

lemma asked_two_runs:
  "asked [(other_env, new_upload), (demo_env, what_year)] = [lit ''What year is this?'']"
  by (simp add: new_upload_def what_year_def what_year_not_empty)

text \<open>
  Claim C1. In the \<open>READY\<close> state the upload block is guarded by
  \<open>'gemini_file' not in st.session_state\<close> (line 166): a run with a newly uploaded
  document makes no upload, poll, summary, title or search call and returns the session
  state as it was, so nothing is cleared and the new document is not processed. Over any
  further runs of the session the handle, the chat session, the summary, the title and
  the search results stay as they are, the chat history only grows, and the only service
  calls are the questions sent: each derived value is computed at most once per session.
\<close>

theorem reupload_keeps_state:
  assumes "READY s" "chat_history s = Some h"
  shows "col1 e \<lparr>uploaded_file = Some uploaded, user_question = None\<rparr> s w =
           Some (Inr (), s, emit (panel s @ transcript h) w)
         \<and> calls (panel s @ transcript h) = []
         \<and> (\<exists>s' es. runs rs s w = Some (s', emit es w) \<and> READY s' \<and> kept s s'
               \<and> calls es = map SendMessage (asked rs))"
  using col1_quiet[OF assms] runs_READY[OF assms(1)]
  by (simp add: calls_append calls_panel calls_transcript)

theorem reupload_keeps_state_witness:
  "col1 other_env new_upload ready_state empty_world =
     Some (Inr (), ready_state, emit (ready_panel @ ready_transcript) empty_world)
   \<and> calls (ready_panel @ ready_transcript) = []
   \<and> (\<exists>s' es. runs [(other_env, new_upload), (demo_env, what_year)] ready_state empty_world =
                  Some (s', emit es empty_world) \<and> READY s' \<and> kept ready_state s'
          \<and> calls es = [SendMessage (lit ''What year is this?'')])"
  using reupload_keeps_state[OF ready_state_READY ready_state_fields(1),
      of other_env "''%PDF-1.7 another document''" empty_world
         "[(other_env, new_upload), (demo_env, what_year)]", folded new_upload_def]
  by (simp only: asked_two_runs ready_state_panel ready_state_transcript list.map)

theorem reupload_not_reset:
  "col1 other_env new_upload ready_state empty_world =
     Some (Inr (), ready_state, emit (ready_panel @ ready_transcript) empty_world)
   \<and> pdf_summary ready_state = Some summary_a
   \<and> pdf_title ready_state = Some (lit ''Renewable Energy Report'')
   \<and> search_results ready_state = Some (Some demo_payload)
   \<and> chat_history ready_state =
       Some [Message (lit ''user'') (lit ''Who wrote it?''),
             Message (lit ''assistant'') (lit ''The energy agency.'')]"
  using col1_quiet[OF ready_state_READY ready_state_fields(1),
      of other_env "''%PDF-1.7 another document''" empty_world]
  by (simp add: ready_state_panel ready_state_transcript new_upload_def ready_state_fields)

lemma READY_failed_turn:
  assumes "READY s" "chat_history s = Some h"
  shows "READY (s\<lparr>chat_history := Some (h @ ms)\<rparr>)"
    and "kept s (s\<lparr>chat_history := Some (h @ ms)\<rparr>)"
    and "chat_history (s\<lparr>chat_history := Some (h @ ms)\<rparr>) = Some (h @ ms)"
    and "chat_session (s\<lparr>chat_history := Some (h @ ms)\<rparr>) = chat_session s"
  using assms by (simp_all add: READY_def kept_def)

lemma demo_env_answer:
  "send_message demo_env cs (lit ''What year is this?'') = Inr (Response (Inr (lit ''It is from 2023.'')))"
  by (simp add: demo_env_def lit_def)

lemma unreadable_env_sends:
  "send_message unreadable_env cs m = Inr (Response (Inl (OtherException (lit ''no text part''))))"
  by (simp add: unreadable_env_def)

text \<open>
  Claim C8. In the \<open>READY\<close> state a run with a non-empty question appends the user's
  turn, sends the question, and, when the reply's text is read, appends one assistant
  turn. When \<open>send_message\<close> or \<open>response.text\<close> raises, the exception leaves the
  script after the user's turn was appended, and no assistant turn is. In every case the
  summary, the title and the search results are as before.
\<close>

theorem question_appends:
  assumes "READY s" "chat_history s = Some h" "chat_session s = Some cs" "q \<noteq> []"
  shows "(\<forall>t. send_message e cs q = Inr (Response (Inr t)) \<longrightarrow>
            col1 e \<lparr>uploaded_file = Some uploaded, user_question = Some q\<rparr> s w =
              Some (Inr (),
                    s\<lparr>chat_history := Some (h @ [Message (lit ''user'') q, Message (lit ''assistant'') t])\<rparr>,
                    emit (panel s @ [SendMessage q]
                          @ transcript (h @ [Message (lit ''user'') q, Message (lit ''assistant'') t])) w))
       \<and> (\<forall>x. send_message e cs q = Inl x \<or> send_message e cs q = Inr (Response (Inl x)) \<longrightarrow>
            col1 e \<lparr>uploaded_file = Some uploaded, user_question = Some q\<rparr> s w =
              Some (Inl x, s\<lparr>chat_history := Some (h @ [Message (lit ''user'') q])\<rparr>,
                    emit (panel s @ [SendMessage q]) w))
       \<and> (\<exists>r s' es. col1 e \<lparr>uploaded_file = Some uploaded, user_question = Some q\<rparr> s w =
                        Some (r, s', emit es w)
              \<and> pdf_summary s' = pdf_summary s \<and> pdf_title s' = pdf_title s
              \<and> search_results s' = search_results s)"
proof (intro conjI allI impI)
  fix t
  assume "send_message e cs q = Inr (Response (Inr t))"
  then show "col1 e \<lparr>uploaded_file = Some uploaded, user_question = Some q\<rparr> s w =
      Some (Inr (),
            s\<lparr>chat_history := Some (h @ [Message (lit ''user'') q, Message (lit ''assistant'') t])\<rparr>,
            emit (panel s @ [SendMessage q]
                  @ transcript (h @ [Message (lit ''user'') q, Message (lit ''assistant'') t])) w)"
    by (rule col1_reply[OF assms])
next
  fix x
  assume "send_message e cs q = Inl x \<or> send_message e cs q = Inr (Response (Inl x))"
  then show "col1 e \<lparr>uploaded_file = Some uploaded, user_question = Some q\<rparr> s w =
      Some (Inl x, s\<lparr>chat_history := Some (h @ [Message (lit ''user'') q])\<rparr>,
            emit (panel s @ [SendMessage q]) w)"
    by (rule col1_failed[OF assms])
next
  show "\<exists>r s' es. col1 e \<lparr>uploaded_file = Some uploaded, user_question = Some q\<rparr> s w =
                        Some (r, s', emit es w)
              \<and> pdf_summary s' = pdf_summary s \<and> pdf_title s' = pdf_title s
              \<and> search_results s' = search_results s"
  proof (cases rule: send_message_cases[of e cs q])
    case (raised x)
    then show ?thesis
      using col1_failed[OF assms, of e x uploaded w]
      by (intro exI[of _ "Inl x"] exI[of _ "s\<lparr>chat_history := Some (h @ [Message (lit ''user'') q])\<rparr>"]
          exI[of _ "panel s @ [SendMessage q]"]) simp
  next
    case (unreadable x)
    then show ?thesis
      using col1_failed[OF assms, of e x uploaded w]
      by (intro exI[of _ "Inl x"] exI[of _ "s\<lparr>chat_history := Some (h @ [Message (lit ''user'') q])\<rparr>"]
          exI[of _ "panel s @ [SendMessage q]"]) simp
  next
    case (reply t)
    then show ?thesis
      using col1_reply[OF assms, of e t uploaded w]
      by (intro exI[of _ "Inr ()"]
          exI[of _ "s\<lparr>chat_history := Some (h @ [Message (lit ''user'') q, Message (lit ''assistant'') t])\<rparr>"]
          exI[of _ "panel s @ [SendMessage q]
                  @ transcript (h @ [Message (lit ''user'') q, Message (lit ''assistant'') t])"]) simp
  qed
qed

theorem question_appends_witness:
  "col1 demo_env what_year ready_state empty_world =
     Some (Inr (),
           ready_state\<lparr>chat_history :=
             Some [Message (lit ''user'') (lit ''Who wrote it?''),
                   Message (lit ''assistant'') (lit ''The energy agency.''),
                   Message (lit ''user'') (lit ''What year is this?''),
                   Message (lit ''assistant'') (lit ''It is from 2023.'')]\<rparr>,
           emit (ready_panel @ [SendMessage (lit ''What year is this?'')] @ ready_transcript
                 @ [StChatMessage (lit ''user'') (lit ''What year is this?''),
                    StChatMessage (lit ''assistant'') (lit ''It is from 2023.'')]) empty_world)
   \<and> col1 unreadable_env what_year ready_state empty_world =
     Some (Inl (OtherException (lit ''no text part'')),
           ready_state\<lparr>chat_history :=
             Some [Message (lit ''user'') (lit ''Who wrote it?''),
                   Message (lit ''assistant'') (lit ''The energy agency.''),
                   Message (lit ''user'') (lit ''What year is this?'')]\<rparr>,
           emit (ready_panel @ [SendMessage (lit ''What year is this?'')]) empty_world)"
proof (intro conjI)
  show "col1 demo_env what_year ready_state empty_world =
     Some (Inr (),
           ready_state\<lparr>chat_history :=
             Some [Message (lit ''user'') (lit ''Who wrote it?''),
                   Message (lit ''assistant'') (lit ''The energy agency.''),
                   Message (lit ''user'') (lit ''What year is this?''),
                   Message (lit ''assistant'') (lit ''It is from 2023.'')]\<rparr>,
           emit (ready_panel @ [SendMessage (lit ''What year is this?'')] @ ready_transcript
                 @ [StChatMessage (lit ''user'') (lit ''What year is this?''),
                    StChatMessage (lit ''assistant'') (lit ''It is from 2023.'')]) empty_world)"
    using question_appends[OF ready_state_READY ready_state_fields(1) ready_state_fields(2)
        what_year_not_empty, of demo_env "''%PDF-1.4 renewable energy''" empty_world,
        THEN conjunct1, rule_format, OF demo_env_answer]
    by (simp add: what_year_def ready_state_panel transcript_def ready_transcript_def)
next
  show "col1 unreadable_env what_year ready_state empty_world =
     Some (Inl (OtherException (lit ''no text part'')),
           ready_state\<lparr>chat_history :=
             Some [Message (lit ''user'') (lit ''Who wrote it?''),
                   Message (lit ''assistant'') (lit ''The energy agency.''),
                   Message (lit ''user'') (lit ''What year is this?'')]\<rparr>,
           emit (ready_panel @ [SendMessage (lit ''What year is this?'')]) empty_world)"
    using question_appends[OF ready_state_READY ready_state_fields(1) ready_state_fields(2)
        what_year_not_empty, of unreadable_env "''%PDF-1.4 renewable energy''" empty_world,
        THEN conjunct2, THEN conjunct1, rule_format, OF disjI2[OF unreadable_env_sends]]
    by (simp add: what_year_def ready_state_panel)
qed

theorem question_without_reply:
  "col1 failing_env what_year ready_state empty_world =
     Some (Inl (OtherException (lit ''quota exceeded'')),
           ready_state\<lparr>chat_history :=
             Some [Message (lit ''user'') (lit ''Who wrote it?''),
                   Message (lit ''assistant'') (lit ''The energy agency.''),
                   Message (lit ''user'') (lit ''What year is this?'')]\<rparr>,
           emit (ready_panel @ [SendMessage (lit ''What year is this?'')]) empty_world)
   \<and> chat_history ready_state =
       Some [Message (lit ''user'') (lit ''Who wrote it?''),
             Message (lit ''assistant'') (lit ''The energy agency.'')]"
  using col1_failed[OF ready_state_READY ready_state_fields(1) ready_state_fields(2)
      what_year_not_empty disjI1[OF env_sends(1)], of "''%PDF-1.4 renewable energy''" empty_world]
  by (simp add: what_year_def ready_state_panel ready_state_fields(1))

text \<open>
  Claim C2. In the \<open>READY\<close> state, when \<open>send_message\<close> or \<open>response.text\<close> raises
  for a question, that exception ends the run (Streamlit shows an exception that leaves
  the script), after the user's turn was appended and the question sent. The session
  state it leaves is still \<open>READY\<close>, with the handle, chat session, summary, title and
  search results as before. The next run without a question ends normally and renders the
  panel and the transcript only; the next run with a question that is answered ends
  normally and appends that question and its reply.
\<close>

theorem failed_turn_recoverable:
  assumes "READY s" "chat_history s = Some h" "chat_session s = Some cs" "q \<noteq> []"
    "send_message e cs q = Inl x \<or> send_message e cs q = Inr (Response (Inl x))"
  shows "col1 e \<lparr>uploaded_file = Some uploaded, user_question = Some q\<rparr> s w =
           Some (Inl x, s\<lparr>chat_history := Some (h @ [Message (lit ''user'') q])\<rparr>,
                 emit (panel s @ [SendMessage q]) w)
       \<and> READY (s\<lparr>chat_history := Some (h @ [Message (lit ''user'') q])\<rparr>)
       \<and> kept s (s\<lparr>chat_history := Some (h @ [Message (lit ''user'') q])\<rparr>)
       \<and> col1 e' \<lparr>uploaded_file = Some uploaded', user_question = None\<rparr>
             (s\<lparr>chat_history := Some (h @ [Message (lit ''user'') q])\<rparr>) w' =
           Some (Inr (), s\<lparr>chat_history := Some (h @ [Message (lit ''user'') q])\<rparr>,
                 emit (panel s @ transcript (h @ [Message (lit ''user'') q])) w')
       \<and> (q' \<noteq> [] \<and> send_message e' cs q' = Inr (Response (Inr a)) \<longrightarrow>
            col1 e' \<lparr>uploaded_file = Some uploaded', user_question = Some q'\<rparr>
              (s\<lparr>chat_history := Some (h @ [Message (lit ''user'') q])\<rparr>) w' =
            Some (Inr (),
                  s\<lparr>chat_history := Some (h @ [Message (lit ''user'') q, Message (lit ''user'') q',
                                                 Message (lit ''assistant'') a])\<rparr>,
                  emit (panel s @ [SendMessage q']
                        @ transcript (h @ [Message (lit ''user'') q, Message (lit ''user'') q',
                                           Message (lit ''assistant'') a])) w'))"
proof (intro conjI impI)
  let ?s1 = "s\<lparr>chat_history := Some (h @ [Message (lit ''user'') q])\<rparr>"
  note R = READY_failed_turn[OF assms(1,2), of "[Message (lit ''user'') q]"]
  show "col1 e \<lparr>uploaded_file = Some uploaded, user_question = Some q\<rparr> s w =
           Some (Inl x, ?s1, emit (panel s @ [SendMessage q]) w)"
    by (rule col1_failed[OF assms])
  show "READY ?s1" by (rule R(1))
  show "kept s ?s1" by (rule R(2))
  show "col1 e' \<lparr>uploaded_file = Some uploaded', user_question = None\<rparr> ?s1 w' =
           Some (Inr (), ?s1, emit (panel s @ transcript (h @ [Message (lit ''user'') q])) w')"
    using col1_quiet[OF R(1) R(3), of e' uploaded' w'] by (simp only: panel_history)
  assume next_turn: "q' \<noteq> [] \<and> send_message e' cs q' = Inr (Response (Inr a))"
  have cs: "chat_session ?s1 = Some cs"
    using R(4) assms(3) by simp
  show "col1 e' \<lparr>uploaded_file = Some uploaded', user_question = Some q'\<rparr> ?s1 w' =
            Some (Inr (),
                  s\<lparr>chat_history := Some (h @ [Message (lit ''user'') q, Message (lit ''user'') q',
                                                 Message (lit ''assistant'') a])\<rparr>,
                  emit (panel s @ [SendMessage q']
                        @ transcript (h @ [Message (lit ''user'') q, Message (lit ''user'') q',
                                           Message (lit ''assistant'') a])) w')"
    using col1_reply[OF R(1) R(3) cs conjunct1[OF next_turn] conjunct2[OF next_turn], of uploaded' w']
    by (simp add: panel_history)
qed

theorem failed_turn_recoverable_witness:
  "col1 failing_env what_year ready_state empty_world =
     Some (Inl (OtherException (lit ''quota exceeded'')),
           ready_state\<lparr>chat_history :=
             Some [Message (lit ''user'') (lit ''Who wrote it?''),
                   Message (lit ''assistant'') (lit ''The energy agency.''),
                   Message (lit ''user'') (lit ''What year is this?'')]\<rparr>,
           emit (ready_panel @ [SendMessage (lit ''What year is this?'')]) empty_world)
   \<and> READY (ready_state\<lparr>chat_history :=
             Some [Message (lit ''user'') (lit ''Who wrote it?''),
                   Message (lit ''assistant'') (lit ''The energy agency.''),
                   Message (lit ''user'') (lit ''What year is this?'')]\<rparr>)
   \<and> col1 demo_env what_year
         (ready_state\<lparr>chat_history :=
             Some [Message (lit ''user'') (lit ''Who wrote it?''),
                   Message (lit ''assistant'') (lit ''The energy agency.''),
                   Message (lit ''user'') (lit ''What year is this?'')]\<rparr>)
         (emit (ready_panel @ [SendMessage (lit ''What year is this?'')]) empty_world) =
     Some (Inr (),
           ready_state\<lparr>chat_history :=
             Some [Message (lit ''user'') (lit ''Who wrote it?''),
                   Message (lit ''assistant'') (lit ''The energy agency.''),
                   Message (lit ''user'') (lit ''What year is this?''),
                   Message (lit ''user'') (lit ''What year is this?''),
                   Message (lit ''assistant'') (lit ''It is from 2023.'')]\<rparr>,
           emit (ready_panel @ [SendMessage (lit ''What year is this?'')] @ ready_transcript
                 @ [StChatMessage (lit ''user'') (lit ''What year is this?''),
                    StChatMessage (lit ''user'') (lit ''What year is this?''),
                    StChatMessage (lit ''assistant'') (lit ''It is from 2023.'')])
             (emit (ready_panel @ [SendMessage (lit ''What year is this?'')]) empty_world))"
  using failed_turn_recoverable[OF ready_state_READY ready_state_fields(1) ready_state_fields(2)
      what_year_not_empty disjI1[OF env_sends(1)],
      of "''%PDF-1.4 renewable energy''" empty_world demo_env "''%PDF-1.4 renewable energy''"
         "emit (ready_panel @ [SendMessage (lit ''What year is this?'')]) empty_world"
         "lit ''What year is this?''" "lit ''It is from 2023.''"]
  by (simp add: what_year_def ready_state_panel transcript_def ready_transcript_def
      what_year_not_empty demo_env_answer)

end
